theory Spec2Isabelle
  imports Main
begin

section \<open>The pgAdmin pod of the standalone pgAdmin controller\<close>

text \<open>
  The source is \<^verbatim>\<open>internal/controller/standalone_pgadmin/pod.go\<close>. Two parts of it
  are embedded here: \<^verbatim>\<open>podConfigFiles\<close>, which builds the list of projections of the
  configuration volume, and the Bash program that \<^verbatim>\<open>startupScript\<close> assembles and that
  runs as the command of the pgAdmin container (\<^verbatim>\<open>bash -ceu\<close>: a simple command that
  fails outside of a condition ends the script).
\<close>

subsection \<open>Constants of the package\<close>

text \<open>
  \<^verbatim>\<open>settingsConfigMapKey\<close> and \<^verbatim>\<open>settingsClusterMapKey\<close> are declared in another file of
  the package; the functions below take them as a parameter.
\<close>

record package_consts =
  settingsConfigMapKey :: string
  settingsClusterMapKey :: string

definition configMountPath :: string where
  "configMountPath = ''/etc/pgadmin/conf.d''"

definition configFilePath :: "package_consts \<Rightarrow> string" where
  "configFilePath k = ''~postgres-operator/'' @ settingsConfigMapKey k"

definition clusterFilePath :: "package_consts \<Rightarrow> string" where
  "clusterFilePath k = ''~postgres-operator/'' @ settingsClusterMapKey k"

definition ldapFilePath :: string where
  "ldapFilePath = ''~postgres-operator/ldap-bind-password''"

subsection \<open>The Kubernetes types that podConfigFiles builds\<close>

text \<open>
  Only the fields of \<^verbatim>\<open>corev1\<close> and \<^verbatim>\<open>v1beta1\<close> that the function reads or writes are
  kept, under the Go names with a prefix that tells the structs apart. A Go pointer is an
  \<open>option\<close>; the sources of a projection that the function never sets (downward API,
  service account token, cluster trust bundle) are one field of an arbitrary type.
\<close>

record KeyToPath =
  Key :: string
  Path :: string
  Mode :: "int option"

record ConfigMapProjection =
  cm_Name :: string
  cm_Items :: "KeyToPath list"
  cm_Optional :: "bool option"

record SecretProjection =
  sec_Name :: string
  sec_Items :: "KeyToPath list"
  sec_Optional :: "bool option"

record 'x VolumeProjection =
  Secret :: "SecretProjection option"
  ConfigMap :: "ConfigMapProjection option"
  OtherSources :: 'x

record SecretKeySelector =
  sel_Name :: string
  sel_Key :: string
  sel_Optional :: "bool option"

record ConfigMap =
  configmap_Name :: string

record 'x PGAdmin =
  Name :: string
  Namespace :: string
  Files :: "'x VolumeProjection list"
  LDAPBindPassword :: "SecretKeySelector option"

datatype panic = NilPointerDereference

text \<open>
  \<^verbatim>\<open>podConfigFiles(configmap, pgadmin)\<close>. The first argument is a pointer that the
  function dereferences (\<^verbatim>\<open>configmap.Name\<close>), so a nil pointer is a panic. The argument
  \<open>none\<close> is the zero value of the sources that a composite literal leaves unset.
\<close>

definition podConfigFiles ::
  "package_consts \<Rightarrow> 'x \<Rightarrow> ConfigMap option \<Rightarrow> 'x PGAdmin \<Rightarrow> panic + 'x VolumeProjection list"
where
  "podConfigFiles k none configmap pgadmin =
     (case configmap of
        None \<Rightarrow> Inl NilPointerDereference
      | Some cm \<Rightarrow>
          (let config = ([] @ Files pgadmin) @
                 [\<lparr>Secret = None,
                   ConfigMap = Some \<lparr>cm_Name = configmap_Name cm,
                     cm_Items =
                       [\<lparr>Key = settingsConfigMapKey k, Path = configFilePath k, Mode = None\<rparr>,
                        \<lparr>Key = settingsClusterMapKey k, Path = clusterFilePath k, Mode = None\<rparr>],
                     cm_Optional = None\<rparr>,
                   OtherSources = none\<rparr>]
           in case LDAPBindPassword pgadmin of
                None \<Rightarrow> Inr config
              | Some sel \<Rightarrow>
                  Inr (config @
                    [\<lparr>Secret = Some \<lparr>sec_Name = sel_Name sel,
                        sec_Items = [\<lparr>Key = sel_Key sel, Path = ldapFilePath, Mode = None\<rparr>],
                        sec_Optional = sel_Optional sel\<rparr>,
                      ConfigMap = None,
                      OtherSources = none\<rparr>])))"

subsection \<open>The command line that loads the shared servers\<close>

text \<open>
  \<^verbatim>\<open>loadServerCommand\<close> of \<^verbatim>\<open>startupScript\<close>: the two \<^verbatim>\<open>fmt.Sprintf\<close> calls, and the last
  element of the returned argument vector, which the wrapper exports as
  \<^verbatim>\<open>cluster_file\<close>.
\<close>

definition adminUser :: "'x PGAdmin \<Rightarrow> string" where
  "adminUser pgadmin = ''admin@'' @ Name pgadmin @ ''.'' @ Namespace pgadmin @ ''.svc''"

definition cluster_file :: "package_consts \<Rightarrow> string" where
  "cluster_file k = configMountPath @ ''/'' @ clusterFilePath k"

definition loadServerCommand :: "package_consts \<Rightarrow> 'x PGAdmin \<Rightarrow> string" where
  "loadServerCommand k pgadmin =
     ''python3 ${PGADMIN_DIR}/setup.py --load-servers '' @ configMountPath @ ''/'' @
       clusterFilePath k @ '' --user '' @ adminUser pgadmin @ '' --replace''"

subsection \<open>The monitor function of the container's command\<close>

text \<open>
  What the script does to the outside world is recorded, in order, in a trace.
\<close>

datatype event =
    Echo string
  | RunSetup
  | Spawn nat
  | WritePid nat
  | LoadServers string
  | OpenFd nat
  | StatLoaded nat

text \<open>
  The state of the script between two commands: the modification time of the pipe behind
  the descriptor \<^verbatim>\<open>${fd}\<close> (the time at which \<^verbatim>\<open>exec {fd}<> <(:)\<close> created it, since
  nothing is ever written to it), the contents of \<^verbatim>\<open>$PGADMIN4_PIDFILE\<close>, and the trace
  so far. Times are natural numbers on one clock.
\<close>

record monitor_state =
  fd_mtime :: nat
  pidfile :: nat
  trace :: "event list"

text \<open>The script ended by \<^verbatim>\<open>set -e\<close>: the exit status and the trace up to there.\<close>

datatype script_exit = ScriptExit nat "event list"

text \<open>
  What the outside world answers during the start of the script: the exit status of
  \<^verbatim>\<open>setup.py\<close>, the process id \<^verbatim>\<open>$!\<close> of the first \<^verbatim>\<open>pgadmin4 &\<close>, the exit status of
  the load command, the time at which the descriptor is opened, and the modification time
  of the cluster file (\<open>None\<close> when it does not exist), which the start never reads.
\<close>

record start_env =
  setup_status :: nat
  first_pid :: nat
  first_load_status :: nat
  open_time :: nat
  start_cluster_mtime :: "nat option"

text \<open>
  What the outside world answers during one iteration of the loop: the modification time
  of the cluster file when \<^verbatim>\<open>[ -nt ]\<close> reads it (\<open>None\<close> when the file does not exist),
  the exit status of the load command, the time at which the descriptor is reopened, the
  modification time that \<^verbatim>\<open>stat\<close> reads (\<open>None\<close> when the file is gone by then, and
  \<^verbatim>\<open>stat\<close> fails), the process ids \<open>p\<close> for which \<^verbatim>\<open>/proc/p\<close> is a directory, and the
  process id \<^verbatim>\<open>$!\<close> of a new \<^verbatim>\<open>pgadmin4 &\<close>.
\<close>

record tick_env =
  cluster_mtime :: "nat option"
  load_status :: nat
  reopen_time :: nat
  stat_mtime :: "nat option"
  proc_dirs :: "nat set"
  spawned_pid :: nat

text \<open>
  \<^verbatim>\<open>[ "${cluster_file}" -nt "/proc/self/fd/${fd}" ]\<close>: the second file always exists, so
  the test holds when the first exists and its modification time is later.
\<close>

definition newer_than :: "nat option \<Rightarrow> nat \<Rightarrow> bool" where
  "newer_than f w = (case f of None \<Rightarrow> False | Some t \<Rightarrow> w < t)"

text \<open>
  The lines of \<^verbatim>\<open>startScript\<close>, then the \<^verbatim>\<open>exec {fd}<> <(:)\<close> that opens \<^verbatim>\<open>reloadScript\<close>.
\<close>

definition startup :: "string \<Rightarrow> start_env \<Rightarrow> script_exit + monitor_state" where
  "startup cmd e =
     (let t1 = [Echo ''Running pgAdmin4 Setup'', RunSetup] in
      if setup_status e \<noteq> 0 then Inl (ScriptExit (setup_status e) t1)
      else
        (let t2 = t1 @ [Echo ''Starting pgAdmin4'', Spawn (first_pid e),
                        WritePid (first_pid e), LoadServers cmd] in
         if first_load_status e \<noteq> 0 then Inl (ScriptExit (first_load_status e) t2)
         else Inr \<lparr>fd_mtime = open_time e, pidfile = first_pid e,
                   trace = t2 @ [OpenFd (open_time e)]\<rparr>))"

text \<open>
  The first \<^verbatim>\<open>if\<close> of the loop body. The load command runs only when the test holds
  (\<^verbatim>\<open>&&\<close>), and the \<^verbatim>\<open>then\<close> branch runs only when both succeed.
\<close>

definition reload_step :: "string \<Rightarrow> tick_env \<Rightarrow> monitor_state \<Rightarrow> script_exit + monitor_state" where
  "reload_step cmd e s =
     (if newer_than (cluster_mtime e) (fd_mtime s) then
        (let s1 = s\<lparr>trace := trace s @ [LoadServers cmd]\<rparr> in
         if load_status e = 0 then
           (let s2 = s1\<lparr>fd_mtime := reopen_time e,
                        trace := trace s1 @ [OpenFd (reopen_time e)]\<rparr> in
            case stat_mtime e of
              None \<Rightarrow> Inl (ScriptExit 1 (trace s2))
            | Some t \<Rightarrow> Inr (s2\<lparr>trace := trace s2 @ [StatLoaded t]\<rparr>))
         else Inr s1)
      else Inr s)"

text \<open>The second \<^verbatim>\<open>if\<close> of the loop body.\<close>

definition liveness_step :: "tick_env \<Rightarrow> monitor_state \<Rightarrow> monitor_state" where
  "liveness_step e s =
     (if pidfile s \<notin> proc_dirs e then
        s\<lparr>pidfile := spawned_pid e,
          trace := trace s @ [Spawn (spawned_pid e), WritePid (spawned_pid e),
                              Echo ''Restarting pgAdmin4'']\<rparr>
      else s)"

text \<open>One iteration of the loop.\<close>

definition tick :: "string \<Rightarrow> tick_env \<Rightarrow> monitor_state \<Rightarrow> script_exit + monitor_state" where
  "tick cmd e s =
     (case reload_step cmd e s of
        Inl x \<Rightarrow> Inl x
      | Inr s1 \<Rightarrow> Inr (liveness_step e s1))"

text \<open>
  \<^verbatim>\<open>while read -r -t 5 -u "${fd}" || true\<close> never leaves the loop by itself. The iterations
  are driven by the list of what the outside world answers at each of them; the result is
  the state after the last one, or the exit of the script.
\<close>

fun run_loop :: "string \<Rightarrow> tick_env list \<Rightarrow> monitor_state \<Rightarrow> script_exit + monitor_state" where
  "run_loop cmd [] s = Inr s"
| "run_loop cmd (e # es) s =
     (case tick cmd e s of
        Inl x \<Rightarrow> Inl x
      | Inr s' \<Rightarrow> run_loop cmd es s')"

definition monitor :: "string \<Rightarrow> start_env \<Rightarrow> tick_env list \<Rightarrow> script_exit + monitor_state" where
  "monitor cmd se es =
     (case startup cmd se of
        Inl x \<Rightarrow> Inl x
      | Inr s \<Rightarrow> run_loop cmd es s)"

text \<open>The trace of a result, whichever way the script went.\<close>

fun result_trace :: "script_exit + monitor_state \<Rightarrow> event list" where
  "result_trace (Inl (ScriptExit st tr)) = tr"
| "result_trace (Inr s) = trace s"

text \<open>How many times the load command was invoked in a trace.\<close>

definition loads :: "event list \<Rightarrow> nat" where
  "loads tr = length (filter (\<lambda>ev. case ev of LoadServers c \<Rightarrow> True | _ \<Rightarrow> False) tr)"

text \<open>How many times the descriptor was opened, and how many times \<^verbatim>\<open>stat\<close> printed
  \<^verbatim>\<open>Loaded shared servers dated ...\<close>.\<close>

definition opens :: "event list \<Rightarrow> nat" where
  "opens tr = length (filter (\<lambda>ev. case ev of OpenFd t \<Rightarrow> True | _ \<Rightarrow> False) tr)"

definition loaded_messages :: "event list \<Rightarrow> nat" where
  "loaded_messages tr = length (filter (\<lambda>ev. case ev of StatLoaded t \<Rightarrow> True | _ \<Rightarrow> False) tr)"



text \<open>The trace of a start that reaches the loop.\<close>

definition startup_trace :: "string \<Rightarrow> start_env \<Rightarrow> event list" where
  "startup_trace cmd e =
     [Echo ''Running pgAdmin4 Setup'', RunSetup, Echo ''Starting pgAdmin4'',
      Spawn (first_pid e), WritePid (first_pid e), LoadServers cmd, OpenFd (open_time e)]"









section \<open>Properties\<close>

subsection \<open>Counting events\<close>

lemma loads_append: "loads (xs @ ys) = loads xs + loads ys"
  by (simp add: loads_def)

lemma loads_simps:
  "loads [] = 0"
  "loads (LoadServers c # tr) = Suc (loads tr)"
  "loads (Echo m # tr) = loads tr"
  "loads (RunSetup # tr) = loads tr"
  "loads (Spawn p # tr) = loads tr"
  "loads (WritePid p # tr) = loads tr"
  "loads (OpenFd t # tr) = loads tr"
  "loads (StatLoaded t # tr) = loads tr"
  by (simp_all add: loads_def)

lemma opens_append: "opens (xs @ ys) = opens xs + opens ys"
  by (simp add: opens_def)

lemma loaded_messages_append: "loaded_messages (xs @ ys) = loaded_messages xs + loaded_messages ys"
  by (simp add: loaded_messages_def)


subsection \<open>The two steps of an iteration\<close>

lemma newer_than_iff: "newer_than f w \<longleftrightarrow> (\<exists>t. f = Some t \<and> w < t)"
  by (cases f) (simp_all add: newer_than_def)

lemma reload_step_unchanged:
  "\<not> newer_than (cluster_mtime e) (fd_mtime s) \<Longrightarrow> reload_step cmd e s = Inr s"
  by (simp add: reload_step_def)

lemma reload_step_failed:
  "newer_than (cluster_mtime e) (fd_mtime s) \<Longrightarrow> load_status e \<noteq> 0 \<Longrightarrow>
   reload_step cmd e s = Inr (s\<lparr>trace := trace s @ [LoadServers cmd]\<rparr>)"
  by (simp add: reload_step_def)

lemma reload_step_loaded:
  "newer_than (cluster_mtime e) (fd_mtime s) \<Longrightarrow> load_status e = 0 \<Longrightarrow> stat_mtime e = Some t \<Longrightarrow>
   reload_step cmd e s =
     Inr (s\<lparr>fd_mtime := reopen_time e,
            trace := trace s @ [LoadServers cmd, OpenFd (reopen_time e), StatLoaded t]\<rparr>)"
  by (simp add: reload_step_def)

lemma reload_step_stat_failed:
  "newer_than (cluster_mtime e) (fd_mtime s) \<Longrightarrow> load_status e = 0 \<Longrightarrow> stat_mtime e = None \<Longrightarrow>
   reload_step cmd e s =
     Inl (ScriptExit 1 (trace s @ [LoadServers cmd, OpenFd (reopen_time e)]))"
  by (simp add: reload_step_def)


lemma reload_step_trace: "reload_step cmd e s = Inr s1 \<Longrightarrow> \<exists>tr. trace s1 = trace s @ tr"
  by (auto simp: reload_step_def Let_def split: if_splits option.splits)

lemma liveness_step_fd_mtime: "fd_mtime (liveness_step e s) = fd_mtime s"
  by (simp add: liveness_step_def)

lemma liveness_step_loads: "loads (trace (liveness_step e s)) = loads (trace s)"
  by (simp add: liveness_step_def loads_append loads_simps)

lemma liveness_step_opens: "opens (trace (liveness_step e s)) = opens (trace s)"
  by (simp add: liveness_step_def opens_def)

lemma liveness_step_loaded_messages:
  "loaded_messages (trace (liveness_step e s)) = loaded_messages (trace s)"
  by (simp add: liveness_step_def loaded_messages_def)

lemma liveness_step_alive: "pidfile s \<in> proc_dirs e \<Longrightarrow> liveness_step e s = s"
  by (simp add: liveness_step_def)

lemma liveness_step_trace: "\<exists>tr. trace (liveness_step e s) = trace s @ tr"
  by (simp add: liveness_step_def)


subsection \<open>One iteration\<close>

lemma tick_unchanged_alive:
  "\<not> newer_than (cluster_mtime e) (fd_mtime s) \<Longrightarrow> pidfile s \<in> proc_dirs e \<Longrightarrow>
   tick cmd e s = Inr s"
  by (simp add: tick_def reload_step_unchanged liveness_step_alive)

lemma tick_failed:
  "newer_than (cluster_mtime e) (fd_mtime s) \<Longrightarrow> load_status e \<noteq> 0 \<Longrightarrow>
   tick cmd e s = Inr (liveness_step e (s\<lparr>trace := trace s @ [LoadServers cmd]\<rparr>))"
  by (simp add: tick_def reload_step_failed)

lemma tick_loaded:
  "newer_than (cluster_mtime e) (fd_mtime s) \<Longrightarrow> load_status e = 0 \<Longrightarrow> stat_mtime e = Some t \<Longrightarrow>
   tick cmd e s = Inr (liveness_step e (s\<lparr>fd_mtime := reopen_time e,
            trace := trace s @ [LoadServers cmd, OpenFd (reopen_time e), StatLoaded t]\<rparr>))"
  by (simp add: tick_def reload_step_loaded)

lemma tick_loads:
  "loads (result_trace (tick cmd e s)) =
     loads (trace s) + (if newer_than (cluster_mtime e) (fd_mtime s) then 1 else 0)"
proof (cases "newer_than (cluster_mtime e) (fd_mtime s)")
  case False
  then show ?thesis by (simp add: tick_def reload_step_unchanged liveness_step_loads)
next
  case True
  show ?thesis
  proof (cases "load_status e = 0")
    case False
    with True show ?thesis
      by (simp add: tick_failed liveness_step_loads loads_append loads_simps)
  next
    case z: True
    show ?thesis
    proof (cases "stat_mtime e")
      case None
      with True z show ?thesis
        by (simp add: tick_def reload_step_stat_failed loads_append loads_simps)
    next
      case (Some t)
      with True z show ?thesis
        by (simp add: tick_loaded liveness_step_loads loads_append loads_simps)
    qed
  qed
qed


lemma tick_split:
  assumes "tick cmd e s = Inr s'"
  obtains s1 where "reload_step cmd e s = Inr s1" and "s' = liveness_step e s1"
  using assms by (auto simp: tick_def split: sum.splits)



lemma tick_trace:
  assumes "tick cmd e s = Inr s'"
  shows "\<exists>tr. trace s' = trace s @ tr"
proof -
  from assms obtain s1 where r: "reload_step cmd e s = Inr s1" and s': "s' = liveness_step e s1"
    by (rule tick_split)
  from reload_step_trace [OF r] obtain tr1 where "trace s1 = trace s @ tr1" ..
  moreover from liveness_step_trace obtain tr2
    where "trace (liveness_step e s1) = trace s1 @ tr2" ..
  ultimately show ?thesis
    using s' by simp
qed

subsection \<open>The loop and the start\<close>

lemma run_loop_append:
  "run_loop cmd (es @ es') s =
     (case run_loop cmd es s of Inl x \<Rightarrow> Inl x | Inr s' \<Rightarrow> run_loop cmd es' s')"
  by (induction es arbitrary: s) (simp_all split: sum.splits)

lemma run_loop_Cons_Inr:
  assumes "run_loop cmd (e # es) s = Inr s'"
  obtains s1 where "tick cmd e s = Inr s1" and "run_loop cmd es s1 = Inr s'"
  using assms by (auto split: sum.splits)


lemma run_loop_trace: "run_loop cmd es s = Inr s' \<Longrightarrow> \<exists>tr. trace s' = trace s @ tr"
proof (induction es arbitrary: s)
  case Nil
  then show ?case by simp
next
  case (Cons e es)
  from Cons.prems obtain s1 where t: "tick cmd e s = Inr s1" and r: "run_loop cmd es s1 = Inr s'"
    by (rule run_loop_Cons_Inr)
  from tick_trace [OF t] obtain tr1 where "trace s1 = trace s @ tr1" ..
  moreover from Cons.IH [OF r] obtain tr2 where "trace s' = trace s1 @ tr2" ..
  ultimately show ?case by simp
qed

lemma failing_ticks:
  "\<forall>e \<in> set es. newer_than (cluster_mtime e) (fd_mtime s) \<and> load_status e \<noteq> 0 \<Longrightarrow>
   \<exists>s'. run_loop cmd es s = Inr s' \<and> fd_mtime s' = fd_mtime s
     \<and> loads (trace s') = loads (trace s) + length es
     \<and> opens (trace s') = opens (trace s)
     \<and> loaded_messages (trace s') = loaded_messages (trace s)"
proof (induction es arbitrary: s)
  case Nil
  then show ?case by simp
next
  case (Cons e es)
  let ?s1 = "liveness_step e (s\<lparr>trace := trace s @ [LoadServers cmd]\<rparr>)"
  from Cons.prems have t: "tick cmd e s = Inr ?s1"
    by (simp add: tick_failed)
  have f: "fd_mtime ?s1 = fd_mtime s"
    by (simp add: liveness_step_fd_mtime)
  from Cons.prems f
  have "\<forall>e \<in> set es. newer_than (cluster_mtime e) (fd_mtime ?s1) \<and> load_status e \<noteq> 0"
    by simp
  from Cons.IH [OF this] obtain s' where
    r: "run_loop cmd es ?s1 = Inr s'" and "fd_mtime s' = fd_mtime ?s1"
    and "loads (trace s') = loads (trace ?s1) + length es"
    and "opens (trace s') = opens (trace ?s1)"
    and "loaded_messages (trace s') = loaded_messages (trace ?s1)"
    by blast
  moreover have "loads (trace ?s1) = loads (trace s) + 1"
    by (simp add: liveness_step_loads loads_append loads_simps)
  moreover have "opens (trace ?s1) = opens (trace s)"
    by (simp add: liveness_step_opens opens_append) (simp add: opens_def)
  moreover have "loaded_messages (trace ?s1) = loaded_messages (trace s)"
    by (simp add: liveness_step_loaded_messages loaded_messages_append)
      (simp add: loaded_messages_def)
  ultimately show ?case
    using t f by simp
qed

lemma startup_Inr: "startup cmd e = Inr s \<Longrightarrow> trace s = startup_trace cmd e"
  by (auto simp: startup_def startup_trace_def Let_def split: if_splits)


lemma monitor_Inr:
  assumes "monitor cmd se es = Inr s"
  obtains s0 where "startup cmd se = Inr s0" and "run_loop cmd es s0 = Inr s"
  using assms by (auto simp: monitor_def split: sum.splits)

subsection \<open>The process id file at every point of a run\<close>















subsection \<open>The load command and the watched file\<close>

text \<open>The load command reads the file that the loop watches, for the administrator of
  this pgAdmin.\<close>

lemma loadServerCommand_cluster_file:
  "loadServerCommand k pgadmin =
     ''python3 ${PGADMIN_DIR}/setup.py --load-servers '' @ cluster_file k @
     '' --user admin@'' @ Name pgadmin @ ''.'' @ Namespace pgadmin @ ''.svc --replace''"
  by (simp add: loadServerCommand_def cluster_file_def adminUser_def)

section \<open>The claims\<close>

subsection \<open>A load command that fails\<close>

text \<open>
  C1, amended. When the cluster file is newer than the descriptor and the load command is
  invoked and exits with a status other than zero, the \<^verbatim>\<open>then\<close> branch is skipped: the
  iteration adds the invocation to the trace and nothing else before the liveness check,
  which runs in the same iteration; the modification time of the descriptor (the
  watermark) is what it was; and at the next iteration, with the cluster file at the same
  modification time, the load command is invoked again.
\<close>

theorem failed_reload_keeps_watermark:
  assumes "newer_than (cluster_mtime e) (fd_mtime s)" and "load_status e \<noteq> 0"
  shows "\<exists>s'. tick cmd e s = Inr s'
           \<and> s' = liveness_step e (s\<lparr>trace := trace s @ [LoadServers cmd]\<rparr>)
           \<and> fd_mtime s' = fd_mtime s
           \<and> (\<forall>e'. cluster_mtime e' = cluster_mtime e \<longrightarrow>
                 loads (result_trace (tick cmd e' s')) = loads (trace s') + 1)"
  using assms
  by (auto simp: tick_failed liveness_step_fd_mtime tick_loads)

theorem failed_reload_keeps_watermark_witness:
  "newer_than (cluster_mtime \<lparr>cluster_mtime = Some 10, load_status = 1, reopen_time = 13,
        stat_mtime = Some 10, proc_dirs = {}, spawned_pid = 5102\<rparr>)
     (fd_mtime \<lparr>fd_mtime = 5, pidfile = 4821, trace = []\<rparr>)
   \<and> load_status \<lparr>cluster_mtime = Some 10, load_status = 1, reopen_time = 13,
        stat_mtime = Some 10, proc_dirs = {}, spawned_pid = 5102\<rparr> \<noteq> 0
   \<and> tick ''load''
        \<lparr>cluster_mtime = Some 10, load_status = 1, reopen_time = 13,
         stat_mtime = Some 10, proc_dirs = {}, spawned_pid = 5102\<rparr>
        \<lparr>fd_mtime = 5, pidfile = 4821, trace = []\<rparr>
      = Inr \<lparr>fd_mtime = 5, pidfile = 5102,
          trace = [LoadServers ''load'', Spawn 5102, WritePid 5102,
                   Echo ''Restarting pgAdmin4'']\<rparr>"
  using failed_reload_keeps_watermark
    [of "\<lparr>cluster_mtime = Some 10, load_status = 1, reopen_time = 13,
         stat_mtime = Some 10, proc_dirs = {}, spawned_pid = 5102\<rparr>"
        "\<lparr>fd_mtime = 5, pidfile = 4821, trace = []\<rparr>" "''load''"]
  by (simp add: newer_than_def liveness_step_def)

text \<open>
  The specification has the watermark advance whatever the exit status. With the
  descriptor opened at time 5, the cluster file modified at time 10 and a load command that
  exits with status 1, the watermark is still 5 after the iteration, and the next
  iteration, with the file unchanged, invokes the load command once more.
\<close>

theorem failed_reload_counterexample:
  "tick ''load''
     \<lparr>cluster_mtime = Some 10, load_status = 1, reopen_time = 13, stat_mtime = Some 10,
      proc_dirs = {4821}, spawned_pid = 5102\<rparr>
     \<lparr>fd_mtime = 5, pidfile = 4821, trace = []\<rparr>
   = Inr \<lparr>fd_mtime = 5, pidfile = 4821, trace = [LoadServers ''load'']\<rparr>
   \<and> tick ''load''
     \<lparr>cluster_mtime = Some 10, load_status = 1, reopen_time = 19, stat_mtime = Some 10,
      proc_dirs = {4821}, spawned_pid = 5102\<rparr>
     \<lparr>fd_mtime = 5, pidfile = 4821, trace = [LoadServers ''load'']\<rparr>
   = Inr \<lparr>fd_mtime = 5, pidfile = 4821,
          trace = [LoadServers ''load'', LoadServers ''load'']\<rparr>"
  by (simp add: tick_def reload_step_def liveness_step_def newer_than_def)

subsection \<open>The value of the watermark after a load\<close>

text \<open>
  C2, amended. When the cluster file is newer than the descriptor, the load command exits
  with status zero and \<^verbatim>\<open>stat\<close> finds the file, the iteration goes on, the load command
  was invoked once, and the watermark is the time at which the descriptor was reopened
  after the load, whatever the modification time of the cluster file.
\<close>

theorem watermark_is_reopen_time:
  assumes "newer_than (cluster_mtime e) (fd_mtime s)" and "load_status e = 0"
    and "stat_mtime e = Some t"
  shows "\<exists>s'. tick cmd e s = Inr s' \<and> fd_mtime s' = reopen_time e
           \<and> loads (trace s') = loads (trace s) + 1"
  using assms
  by (simp add: tick_loaded liveness_step_fd_mtime liveness_step_loads loads_append loads_simps)

theorem watermark_is_reopen_time_witness:
  "newer_than (cluster_mtime \<lparr>cluster_mtime = Some 10, load_status = 0, reopen_time = 13,
        stat_mtime = Some 10, proc_dirs = {4821}, spawned_pid = 5102\<rparr>)
     (fd_mtime \<lparr>fd_mtime = 5, pidfile = 4821, trace = []\<rparr>)
   \<and> load_status \<lparr>cluster_mtime = Some 10, load_status = 0, reopen_time = 13,
        stat_mtime = Some 10, proc_dirs = {4821}, spawned_pid = 5102\<rparr> = 0
   \<and> stat_mtime \<lparr>cluster_mtime = Some 10, load_status = 0, reopen_time = 13,
        stat_mtime = Some 10, proc_dirs = {4821}, spawned_pid = 5102\<rparr> = Some 10
   \<and> fd_mtime (projr (tick ''load''
        \<lparr>cluster_mtime = Some 10, load_status = 0, reopen_time = 13,
         stat_mtime = Some 10, proc_dirs = {4821}, spawned_pid = 5102\<rparr>
        \<lparr>fd_mtime = 5, pidfile = 4821, trace = []\<rparr>)) = 13"
  using watermark_is_reopen_time
    [of "\<lparr>cluster_mtime = Some 10, load_status = 0, reopen_time = 13,
         stat_mtime = Some 10, proc_dirs = {4821}, spawned_pid = 5102\<rparr>"
        "\<lparr>fd_mtime = 5, pidfile = 4821, trace = []\<rparr>" 10 "''load''"]
  by (auto simp: newer_than_def)

text \<open>
  The specification has the watermark become the modification time of the cluster file.
  With the descriptor opened at time 5, the cluster file modified at time 10 and the
  descriptor reopened at time 13, once the load command has returned, the watermark after
  the iteration is 13.
\<close>

theorem watermark_not_mtime_counterexample:
  "newer_than (Some 10) 5
   \<and> tick ''load''
     \<lparr>cluster_mtime = Some 10, load_status = 0, reopen_time = 13, stat_mtime = Some 10,
      proc_dirs = {4821}, spawned_pid = 5102\<rparr>
     \<lparr>fd_mtime = 5, pidfile = 4821, trace = []\<rparr>
   = Inr \<lparr>fd_mtime = 13, pidfile = 4821,
          trace = [LoadServers ''load'', OpenFd 13, StatLoaded 10]\<rparr>"
  by (simp add: tick_def reload_step_def liveness_step_def newer_than_def)

subsection \<open>The test that triggers a load\<close>

text \<open>
  C3. The test of an iteration holds exactly when the cluster file exists and its
  modification time is strictly later than the watermark; the load command is invoked in
  an iteration exactly when the test holds, and is not invoked when the modification time
  is equal to the watermark or earlier.
\<close>

theorem change_predicate_strict:
  "(newer_than (cluster_mtime e) (fd_mtime s) \<longleftrightarrow>
      (\<exists>t. cluster_mtime e = Some t \<and> fd_mtime s < t))
   \<and> (loads (result_trace (tick cmd e s)) = loads (trace s) + 1 \<longleftrightarrow>
        newer_than (cluster_mtime e) (fd_mtime s))
   \<and> (\<forall>t. cluster_mtime e = Some t \<and> t \<le> fd_mtime s \<longrightarrow>
        loads (result_trace (tick cmd e s)) = loads (trace s))"
  by (auto simp: tick_loads newer_than_iff)

theorem change_predicate_strict_witness:
  "cluster_mtime \<lparr>cluster_mtime = Some 5, load_status = 0, reopen_time = 13,
        stat_mtime = Some 5, proc_dirs = {4821}, spawned_pid = 5102\<rparr> = Some 5
   \<and> (5::nat) \<le> fd_mtime \<lparr>fd_mtime = 5, pidfile = 4821, trace = [LoadServers ''load'']\<rparr>
   \<and> loads (result_trace (tick ''load''
        \<lparr>cluster_mtime = Some 5, load_status = 0, reopen_time = 13,
         stat_mtime = Some 5, proc_dirs = {4821}, spawned_pid = 5102\<rparr>
        \<lparr>fd_mtime = 5, pidfile = 4821, trace = [LoadServers ''load'']\<rparr>))
      = loads [LoadServers ''load'']"
  using change_predicate_strict
    [of "\<lparr>cluster_mtime = Some 5, load_status = 0, reopen_time = 13,
         stat_mtime = Some 5, proc_dirs = {4821}, spawned_pid = 5102\<rparr>"
        "\<lparr>fd_mtime = 5, pidfile = 4821, trace = [LoadServers ''load'']\<rparr>" "''load''"]
  by simp

subsection \<open>Writes that land while the load command runs\<close>




subsection \<open>Restart of pgAdmin\<close>




subsection \<open>A cluster file that does not exist\<close>



subsection \<open>Iterations that change nothing\<close>

text \<open>
  C7. From a state and through any number of iterations at each of which the cluster file
  is not newer than the watermark and the recorded process has its directory under
  \<^verbatim>\<open>/proc\<close>, the loop goes on and the state is the same at the end: the watermark, the
  process id file and the trace, so that no load command was invoked and no pgAdmin was
  started.
\<close>

theorem quiescent_ticks_idempotent:
  assumes "\<forall>e \<in> set es. \<not> newer_than (cluster_mtime e) (fd_mtime s) \<and> pidfile s \<in> proc_dirs e"
  shows "run_loop cmd es s = Inr s"
  using assms
  by (induction es) (simp_all add: tick_unchanged_alive)

theorem quiescent_ticks_idempotent_witness:
  "list_all (\<lambda>e.
       \<not> newer_than (cluster_mtime e) (fd_mtime \<lparr>fd_mtime = 5, pidfile = 4821, trace = []\<rparr>)
       \<and> pidfile \<lparr>fd_mtime = 5, pidfile = 4821, trace = []\<rparr> \<in> proc_dirs e)
     [\<lparr>cluster_mtime = Some 5, load_status = 0, reopen_time = 13, stat_mtime = Some 5,
          proc_dirs = {1, 4821}, spawned_pid = 5102\<rparr>,
         \<lparr>cluster_mtime = None, load_status = 1, reopen_time = 18, stat_mtime = None,
          proc_dirs = {4821}, spawned_pid = 5103\<rparr>,
         \<lparr>cluster_mtime = Some 3, load_status = 0, reopen_time = 23, stat_mtime = Some 3,
          proc_dirs = {4821, 9000}, spawned_pid = 5104\<rparr>]
   \<and> run_loop ''load''
        [\<lparr>cluster_mtime = Some 5, load_status = 0, reopen_time = 13, stat_mtime = Some 5,
          proc_dirs = {1, 4821}, spawned_pid = 5102\<rparr>,
         \<lparr>cluster_mtime = None, load_status = 1, reopen_time = 18, stat_mtime = None,
          proc_dirs = {4821}, spawned_pid = 5103\<rparr>,
         \<lparr>cluster_mtime = Some 3, load_status = 0, reopen_time = 23, stat_mtime = Some 3,
          proc_dirs = {4821, 9000}, spawned_pid = 5104\<rparr>]
        \<lparr>fd_mtime = 5, pidfile = 4821, trace = []\<rparr>
      = Inr \<lparr>fd_mtime = 5, pidfile = 4821, trace = []\<rparr>"
  using quiescent_ticks_idempotent
    [of "[\<lparr>cluster_mtime = Some 5, load_status = 0, reopen_time = 13, stat_mtime = Some 5,
          proc_dirs = {1, 4821}, spawned_pid = 5102\<rparr>,
         \<lparr>cluster_mtime = None, load_status = 1, reopen_time = 18, stat_mtime = None,
          proc_dirs = {4821}, spawned_pid = 5103\<rparr>,
         \<lparr>cluster_mtime = Some 3, load_status = 0, reopen_time = 23, stat_mtime = Some 3,
          proc_dirs = {4821, 9000}, spawned_pid = 5104\<rparr>]"
        "\<lparr>fd_mtime = 5, pidfile = 4821, trace = []\<rparr>" "''load''"]
  by (simp add: newer_than_def)

subsection \<open>A load command that fails is invoked again\<close>

text \<open>
  C8. Through any number of iterations at each of which the cluster file is newer than the
  watermark and the load command exits with a status other than zero, the loop goes on,
  the watermark does not move, the descriptor is not reopened, no
  \<^verbatim>\<open>Loaded shared servers\<close> line is printed, and the load command is invoked once at each
  iteration. At the first iteration after them where the load command exits with status
  zero, and \<^verbatim>\<open>stat\<close> finds the file, the line is printed and the watermark becomes the
  time of the reopening.
\<close>

theorem failed_reload_retried:
  assumes "\<forall>e \<in> set es. newer_than (cluster_mtime e) (fd_mtime s) \<and> load_status e \<noteq> 0"
    and "newer_than (cluster_mtime e') (fd_mtime s)" and "load_status e' = 0"
    and "stat_mtime e' = Some t"
  shows "\<exists>s1 s2. run_loop cmd es s = Inr s1 \<and> fd_mtime s1 = fd_mtime s
           \<and> opens (trace s1) = opens (trace s)
           \<and> loaded_messages (trace s1) = loaded_messages (trace s)
           \<and> loads (trace s1) = loads (trace s) + length es
           \<and> run_loop cmd (es @ [e']) s = Inr s2 \<and> fd_mtime s2 = reopen_time e'
           \<and> loads (trace s2) = loads (trace s) + length es + 1
           \<and> loaded_messages (trace s2) = loaded_messages (trace s) + 1"
proof -
  from failing_ticks [OF assms(1)] obtain s1 where
    r: "run_loop cmd es s = Inr s1" and f: "fd_mtime s1 = fd_mtime s"
    and l: "loads (trace s1) = loads (trace s) + length es"
    and p: "opens (trace s1) = opens (trace s)"
    and m: "loaded_messages (trace s1) = loaded_messages (trace s)"
    by blast
  let ?s2 = "liveness_step e' (s1\<lparr>fd_mtime := reopen_time e',
            trace := trace s1 @ [LoadServers cmd, OpenFd (reopen_time e'), StatLoaded t]\<rparr>)"
  from assms f have t: "tick cmd e' s1 = Inr ?s2"
    by (simp add: tick_loaded)
  with r have "run_loop cmd (es @ [e']) s = Inr ?s2"
    by (simp add: run_loop_append)
  moreover have "fd_mtime ?s2 = reopen_time e'"
    by (simp add: liveness_step_fd_mtime)
  moreover have "loads (trace ?s2) = loads (trace s) + length es + 1"
    using l by (simp add: liveness_step_loads loads_append loads_simps)
  moreover have "loaded_messages (trace ?s2) = loaded_messages (trace s) + 1"
    using m by (simp add: liveness_step_loaded_messages loaded_messages_append)
      (simp add: loaded_messages_def)
  ultimately show ?thesis
    using r f l p m by blast
qed

theorem failed_reload_retried_witness:
  "list_all (\<lambda>e.
       newer_than (cluster_mtime e) (fd_mtime \<lparr>fd_mtime = 5, pidfile = 4821, trace = []\<rparr>)
       \<and> load_status e \<noteq> 0)
     [\<lparr>cluster_mtime = Some 10, load_status = 1, reopen_time = 13, stat_mtime = Some 10,
          proc_dirs = {4821}, spawned_pid = 5102\<rparr>,
         \<lparr>cluster_mtime = Some 10, load_status = 2, reopen_time = 18, stat_mtime = Some 10,
          proc_dirs = {4821}, spawned_pid = 5103\<rparr>]
   \<and> run_loop ''load''
        [\<lparr>cluster_mtime = Some 10, load_status = 1, reopen_time = 13, stat_mtime = Some 10,
          proc_dirs = {4821}, spawned_pid = 5102\<rparr>,
         \<lparr>cluster_mtime = Some 10, load_status = 2, reopen_time = 18, stat_mtime = Some 10,
          proc_dirs = {4821}, spawned_pid = 5103\<rparr>]
        \<lparr>fd_mtime = 5, pidfile = 4821, trace = []\<rparr>
     = Inr \<lparr>fd_mtime = 5, pidfile = 4821,
         trace = [LoadServers ''load'', LoadServers ''load'']\<rparr>
   \<and> run_loop ''load''
        ([\<lparr>cluster_mtime = Some 10, load_status = 1, reopen_time = 13, stat_mtime = Some 10,
          proc_dirs = {4821}, spawned_pid = 5102\<rparr>,
         \<lparr>cluster_mtime = Some 10, load_status = 2, reopen_time = 18, stat_mtime = Some 10,
          proc_dirs = {4821}, spawned_pid = 5103\<rparr>] @
         [\<lparr>cluster_mtime = Some 10, load_status = 0, reopen_time = 23, stat_mtime = Some 10,
          proc_dirs = {4821}, spawned_pid = 5104\<rparr>])
        \<lparr>fd_mtime = 5, pidfile = 4821, trace = []\<rparr>
     = Inr \<lparr>fd_mtime = 23, pidfile = 4821,
         trace = [LoadServers ''load'', LoadServers ''load'', LoadServers ''load'',
                  OpenFd 23, StatLoaded 10]\<rparr>"
  using failed_reload_retried
    [of "[\<lparr>cluster_mtime = Some 10, load_status = 1, reopen_time = 13, stat_mtime = Some 10,
          proc_dirs = {4821}, spawned_pid = 5102\<rparr>,
         \<lparr>cluster_mtime = Some 10, load_status = 2, reopen_time = 18, stat_mtime = Some 10,
          proc_dirs = {4821}, spawned_pid = 5103\<rparr>]"
        "\<lparr>fd_mtime = 5, pidfile = 4821, trace = []\<rparr>"
        "\<lparr>cluster_mtime = Some 10, load_status = 0, reopen_time = 23, stat_mtime = Some 10,
          proc_dirs = {4821}, spawned_pid = 5104\<rparr>" 10 "''load''"]
  by (simp add: newer_than_def tick_def reload_step_def liveness_step_def)

subsection \<open>The load at the start\<close>

text \<open>
  C9. When \<^verbatim>\<open>setup.py\<close> exits with status zero, the start of the script invokes the load
  command once, whatever the modification time of the cluster file, and whether or not the
  file exists. A start that reaches the loop has run the setup, started pgAdmin, written
  its process id and invoked the load command, in this order, and then opened the
  descriptor; every trace of the loop begins with these events, among which the load
  command is invoked once.
\<close>

theorem startup_loads_once:
  "(setup_status e = 0 \<longrightarrow>
      loads (result_trace (startup cmd (e\<lparr>start_cluster_mtime := m\<rparr>))) = 1)
   \<and> (startup cmd e = Inr s \<longrightarrow> trace s = startup_trace cmd e)
   \<and> (monitor cmd e es = Inr s' \<longrightarrow> (\<exists>tr. trace s' = startup_trace cmd e @ tr))
   \<and> loads (startup_trace cmd e) = 1"
proof -
  have a: "loads (result_trace (startup cmd (e\<lparr>start_cluster_mtime := m\<rparr>))) = 1"
    if "setup_status e = 0"
    using that by (simp add: startup_def Let_def loads_simps)
  have c: "\<exists>tr. trace s' = startup_trace cmd e @ tr" if "monitor cmd e es = Inr s'"
  proof -
    from that obtain s0 where s0: "startup cmd e = Inr s0" and r: "run_loop cmd es s0 = Inr s'"
      by (rule monitor_Inr)
    from run_loop_trace [OF r] startup_Inr [OF s0] show ?thesis by simp
  qed
  have d: "loads (startup_trace cmd e) = 1"
    by (simp add: startup_trace_def loads_simps)
  from a c d startup_Inr show ?thesis by blast
qed

theorem startup_loads_once_witness:
  "setup_status \<lparr>setup_status = 0, first_pid = 4821, first_load_status = 0, open_time = 5,
          start_cluster_mtime = None\<rparr> = 0
   \<and> startup ''load''
        \<lparr>setup_status = 0, first_pid = 4821, first_load_status = 0, open_time = 5,
          start_cluster_mtime = None\<rparr>
     = Inr \<lparr>fd_mtime = 5, pidfile = 4821,
         trace = [Echo ''Running pgAdmin4 Setup'', RunSetup, Echo ''Starting pgAdmin4'',
                  Spawn 4821, WritePid 4821, LoadServers ''load'', OpenFd 5]\<rparr>
   \<and> monitor ''load''
        \<lparr>setup_status = 0, first_pid = 4821, first_load_status = 0, open_time = 5,
          start_cluster_mtime = None\<rparr>
        [\<lparr>cluster_mtime = None, load_status = 0, reopen_time = 13, stat_mtime = None,
          proc_dirs = {4821}, spawned_pid = 5102\<rparr>]
     = Inr \<lparr>fd_mtime = 5, pidfile = 4821,
         trace = [Echo ''Running pgAdmin4 Setup'', RunSetup, Echo ''Starting pgAdmin4'',
                  Spawn 4821, WritePid 4821, LoadServers ''load'', OpenFd 5]\<rparr>
   \<and> loads (result_trace (startup ''load''
        (\<lparr>setup_status = 0, first_pid = 4821, first_load_status = 0, open_time = 5,
          start_cluster_mtime = None\<rparr>\<lparr>start_cluster_mtime := Some 99\<rparr>))) = 1"
  using startup_loads_once
    [of "\<lparr>setup_status = 0, first_pid = 4821, first_load_status = 0, open_time = 5,
          start_cluster_mtime = None\<rparr>" "''load''" "Some 99"]
  by (simp add: startup_def monitor_def tick_def reload_step_def liveness_step_def
      newer_than_def)

subsection \<open>The projections of the configuration volume\<close>

text \<open>
  C10. For a config map and a pgAdmin, \<^verbatim>\<open>podConfigFiles\<close> returns the projections of
  \<^verbatim>\<open>Spec.Config.Files\<close> first, in their order, then the projection of the config map with
  its two items. When \<^verbatim>\<open>Spec.Config.LDAPBindPassword\<close> is nil, this is all: one element
  more than the files. When it is not nil, the projection of the secret, with the key of
  the selector at the path of the LDAP bind password, is one more element, the last.
\<close>

theorem podConfigFiles_order:
  "\<exists>ps. podConfigFiles k none (Some cm) pgadmin = Inr ps
     \<and> take (length (Files pgadmin)) ps = Files pgadmin
     \<and> ps ! length (Files pgadmin) =
         \<lparr>Secret = None,
          ConfigMap = Some \<lparr>cm_Name = configmap_Name cm,
             cm_Items =
               [\<lparr>Key = settingsConfigMapKey k, Path = configFilePath k, Mode = None\<rparr>,
                \<lparr>Key = settingsClusterMapKey k, Path = clusterFilePath k, Mode = None\<rparr>],
             cm_Optional = None\<rparr>,
          OtherSources = none\<rparr>
     \<and> (LDAPBindPassword pgadmin = None \<longrightarrow> length ps = length (Files pgadmin) + 1)
     \<and> (\<forall>sel. LDAPBindPassword pgadmin = Some sel \<longrightarrow>
           length ps = length (Files pgadmin) + 2 \<and>
           last ps =
             \<lparr>Secret = Some \<lparr>sec_Name = sel_Name sel,
                 sec_Items = [\<lparr>Key = sel_Key sel, Path = ldapFilePath, Mode = None\<rparr>],
                 sec_Optional = sel_Optional sel\<rparr>,
              ConfigMap = None,
              OtherSources = none\<rparr>)"
  by (cases "LDAPBindPassword pgadmin") (simp_all add: podConfigFiles_def Let_def nth_append)

theorem podConfigFiles_order_witness:
  "LDAPBindPassword \<lparr>Name = ''pga'', Namespace = ''ns'', Files = [], LDAPBindPassword = None\<rparr>
     = None
   \<and> podConfigFiles \<lparr>settingsConfigMapKey = ''pgadmin-settings.json'',
        settingsClusterMapKey = ''pgadmin-shared-clusters.json''\<rparr> ()
     (Some \<lparr>configmap_Name = ''pgadmin-cm''\<rparr>)
     \<lparr>Name = ''pga'', Namespace = ''ns'', Files = [], LDAPBindPassword = None\<rparr>
   = Inr [\<lparr>Secret = None,
           ConfigMap = Some \<lparr>cm_Name = ''pgadmin-cm'',
             cm_Items =
               [\<lparr>Key = ''pgadmin-settings.json'',
                 Path = ''~postgres-operator/pgadmin-settings.json'', Mode = None\<rparr>,
                \<lparr>Key = ''pgadmin-shared-clusters.json'',
                 Path = ''~postgres-operator/pgadmin-shared-clusters.json'', Mode = None\<rparr>],
             cm_Optional = None\<rparr>,
           OtherSources = ()\<rparr>]
   \<and> podConfigFiles \<lparr>settingsConfigMapKey = ''pgadmin-settings.json'',
        settingsClusterMapKey = ''pgadmin-shared-clusters.json''\<rparr> ()
     (Some \<lparr>configmap_Name = ''pgadmin-cm''\<rparr>)
     \<lparr>Name = ''pga'', Namespace = ''ns'',
      Files = [\<lparr>Secret = None,
                ConfigMap = Some \<lparr>cm_Name = ''mine'', cm_Items = [], cm_Optional = None\<rparr>,
                OtherSources = ()\<rparr>],
      LDAPBindPassword =
        Some \<lparr>sel_Name = ''ldap'', sel_Key = ''pw'', sel_Optional = Some False\<rparr>\<rparr>
   = Inr [\<lparr>Secret = None,
           ConfigMap = Some \<lparr>cm_Name = ''mine'', cm_Items = [], cm_Optional = None\<rparr>,
           OtherSources = ()\<rparr>,
          \<lparr>Secret = None,
           ConfigMap = Some \<lparr>cm_Name = ''pgadmin-cm'',
             cm_Items =
               [\<lparr>Key = ''pgadmin-settings.json'',
                 Path = ''~postgres-operator/pgadmin-settings.json'', Mode = None\<rparr>,
                \<lparr>Key = ''pgadmin-shared-clusters.json'',
                 Path = ''~postgres-operator/pgadmin-shared-clusters.json'', Mode = None\<rparr>],
             cm_Optional = None\<rparr>,
           OtherSources = ()\<rparr>,
          \<lparr>Secret = Some \<lparr>sec_Name = ''ldap'',
              sec_Items = [\<lparr>Key = ''pw'', Path = ''~postgres-operator/ldap-bind-password'',
                            Mode = None\<rparr>],
              sec_Optional = Some False\<rparr>,
           ConfigMap = None, OtherSources = ()\<rparr>]"
  using podConfigFiles_order
    [of "\<lparr>settingsConfigMapKey = ''pgadmin-settings.json'',
        settingsClusterMapKey = ''pgadmin-shared-clusters.json''\<rparr>" "()"
        "\<lparr>configmap_Name = ''pgadmin-cm''\<rparr>"
        "\<lparr>Name = ''pga'', Namespace = ''ns'', Files = [], LDAPBindPassword = None\<rparr>"]
  by (simp add: podConfigFiles_def configFilePath_def clusterFilePath_def ldapFilePath_def)

end
